theory Spec2Isabelle
  imports Complex_Main "HOL-Library.Sublist"
begin

section \<open>Python values and exceptions\<close>

text \<open>
  The service is Python. A Python \<open>str\<close> is a \<^typ>\<open>string\<close>, one \<^typ>\<open>char\<close> per code
  point, for the code points below 256 (the program's own literals are ASCII); strings
  with other code points are not values of the model. The dynamically typed values the
  program handles (the result of \<open>getenv\<close>, the provider's JSON-like response) are values
  of \<open>pyval\<close>; a dictionary keeps its items as an association list with string keys.
\<close>

datatype pyval =
    PyNone
  | PyInt int
  | PyStr string
  | PyList "pyval list"
  | PyDict "(string \<times> pyval) list"

text \<open>
  Exceptions are values. \<open>OmegaValidationError\<close> is the class of \<open>app/agent.py\<close>, with its
  message. \<open>ValueError\<close> carries the literal that \<open>int()\<close> rejected, \<open>KeyError\<close> the
  missing key. \<open>OtherException cls msg\<close> is any other class derived from \<open>Exception\<close>
  (a provider or database error); \<open>NonException cls\<close> is a class derived from
  \<open>BaseException\<close> only (\<open>KeyboardInterrupt\<close>, \<open>SystemExit\<close>, \<open>asyncio.CancelledError\<close>),
  which \<open>except Exception\<close> does not catch.
\<close>

datatype py_exception =
    OmegaValidationError string
  | ValueError string
  | TypeError
  | IndexError
  | KeyError pyval
  | OtherException string string
  | NonException string

fun is_Exception :: "py_exception \<Rightarrow> bool" where
  "is_Exception (NonException cls) = False"
| "is_Exception e = True"

text \<open>Truthiness, as \<open>x or y\<close> tests it.\<close>

fun truthy :: "pyval \<Rightarrow> bool" where
  "truthy PyNone = False"
| "truthy (PyInt n) = (n \<noteq> 0)"
| "truthy (PyStr s) = (s \<noteq> [])"
| "truthy (PyList xs) = (xs \<noteq> [])"
| "truthy (PyDict kvs) = (kvs \<noteq> [])"

definition py_or :: "pyval \<Rightarrow> pyval \<Rightarrow> pyval" where
  "py_or x y = (if truthy x then x else y)"

subsection \<open>Substring test\<close>

text \<open>
  \<open>sub in s\<close> on two strings: \<open>sub\<close> occurs in \<open>s\<close> as a contiguous run, starting at
  some position of \<open>s\<close> (the empty string occurs in every string).
\<close>

fun str_contains :: "string \<Rightarrow> string \<Rightarrow> bool" where
  "str_contains sub [] = (sub = [])"
| "str_contains sub (c # s) = (prefix sub (c # s) \<or> str_contains sub s)"

subsection \<open>Subscripts\<close>

text \<open>
  \<open>xs[i]\<close> with an integer index counts from the end when \<open>i\<close> is negative and fails
  out of range. \<open>v[k]\<close> with a string key looks a dictionary up and raises \<open>KeyError\<close>
  for a missing key; on a list or a string it raises \<open>TypeError\<close>.
\<close>

definition py_index :: "'a list \<Rightarrow> int \<Rightarrow> 'a option" where
  "py_index xs i =
     (if 0 \<le> i \<and> i < int (length xs) then Some (xs ! nat i)
      else if i < 0 \<and> - int (length xs) \<le> i then Some (xs ! nat (int (length xs) + i))
      else None)"

fun getitem_key :: "pyval \<Rightarrow> string \<Rightarrow> py_exception + pyval" where
  "getitem_key (PyDict kvs) k =
     (case map_of kvs k of None \<Rightarrow> Inl (KeyError (PyStr k)) | Some v \<Rightarrow> Inr v)"
| "getitem_key v k = Inl TypeError"

fun getitem_idx :: "pyval \<Rightarrow> int \<Rightarrow> py_exception + pyval" where
  "getitem_idx (PyList xs) i =
     (case py_index xs i of None \<Rightarrow> Inl IndexError | Some v \<Rightarrow> Inr v)"
| "getitem_idx (PyStr s) i =
     (case py_index s i of None \<Rightarrow> Inl IndexError | Some c \<Rightarrow> Inr (PyStr [c]))"
| "getitem_idx (PyDict kvs) i = Inl (KeyError (PyInt i))"
| "getitem_idx v i = Inl TypeError"

section \<open>The world outside the process\<close>

text \<open>
  What the program does to the outside is recorded in a \<open>world\<close>: the chat requests sent
  to the model provider, the rows submitted to the logging database and the calls of
  \<open>print\<close>, each oldest first. The provider and the database are parameters of the
  model: functions that answer a call with a value or an exception, and that may look at
  the calls made before.
\<close>

record chat_message =
  role :: string
  content :: string

record chat_request =
  req_model :: string
  messages :: "chat_message list"
  temperature :: real

datatype print_arg = PrintStr string | PrintExc py_exception

record world =
  requests :: "chat_request list"
  inserts :: "(string \<times> (string \<times> string) list) list"
  printed :: "print_arg list list"

type_synonym provider = "chat_request list \<Rightarrow> chat_request \<Rightarrow> py_exception + pyval"

section \<open>The provider calls (app/model_provider.py)\<close>

text \<open>
  \<open>call_translator_llm_correction\<close> takes the prompt only. It sends one request, to the
  model \<open>gpt-4\<close> at temperature 0.1, with a fixed system message and the prompt as the
  user message, and returns \<open>response['choices'][0]['message']['content']\<close>. An exception of
  \<open>openai.ChatCompletion.acreate\<close> or of a subscript leaves the function as it is.
\<close>

definition correction_system_prompt :: string where
  "correction_system_prompt =
     ''You are an expert in Omega-AGI. Correct and improve the following Omega script based on the provided instructions.''"

definition correction_request :: "string \<Rightarrow> chat_request" where
  "correction_request prompt =
     \<lparr>req_model = ''gpt-4'',
      messages = [\<lparr>role = ''system'', content = correction_system_prompt\<rparr>,
                  \<lparr>role = ''user'', content = prompt\<rparr>],
      temperature = 1 / 10\<rparr>"

definition response_content :: "pyval \<Rightarrow> py_exception + pyval" where
  "response_content response =
     (case getitem_key response ''choices'' of
        Inl e \<Rightarrow> Inl e
      | Inr choices \<Rightarrow>
          (case getitem_idx choices 0 of
             Inl e \<Rightarrow> Inl e
           | Inr choice \<Rightarrow>
               (case getitem_key choice ''message'' of
                  Inl e \<Rightarrow> Inl e
                | Inr message \<Rightarrow> getitem_key message ''content'')))"

definition call_translator_llm_correction ::
  "provider \<Rightarrow> string \<Rightarrow> world \<Rightarrow> (py_exception + pyval) \<times> world" where
  "call_translator_llm_correction acreate prompt w =
     (let req = correction_request prompt;
          w' = w\<lparr>requests := requests w @ [req]\<rparr>
      in case acreate (requests w) req of
           Inl e \<Rightarrow> (Inl e, w')
         | Inr response \<Rightarrow> (response_content response, w'))"

section \<open>Configuration (app/config.py)\<close>

text \<open>
  \<open>getenv(key, default)\<close> is read as \<open>os.getenv\<close>: it looks the process environment up
  (after the \<open>.env\<close> file has been loaded into it) and gives the variable's string when it
  is set, also when that string is empty, and \<open>default\<close> as it is when the variable is
  unset. \<open>Settings.MAX_CORRECTION_ATTEMPTS\<close> has the integer \<open>3\<close> as its default. The
  environment is a parameter of the model.
\<close>

type_synonym environ = "string \<rightharpoonup> string"

definition getenv :: "environ \<Rightarrow> string \<Rightarrow> pyval \<Rightarrow> pyval" where
  "getenv env key dflt = (case env key of None \<Rightarrow> dflt | Some v \<Rightarrow> PyStr v)"

definition MAX_CORRECTION_ATTEMPTS :: "environ \<Rightarrow> pyval" where
  "MAX_CORRECTION_ATTEMPTS env = getenv env ''MAX_CORRECTION_ATTEMPTS'' (PyInt 3)"

subsection \<open>The builtin \<open>int\<close>\<close>

text \<open>
  \<open>int(x)\<close> returns an integer as it is and parses a string in base 10: whitespace around
  the literal is skipped, one sign may lead, and the digits may be grouped by single
  underscores between them. Anything else raises \<open>ValueError\<close>. An interpreter with a limit
  on the digits of a converted string (\<open>sys.get_int_max_str_digits()\<close>, here \<open>maxd\<close>, with
  \<open>0\<close> for none) raises \<open>ValueError\<close> for a literal of more than 640 digits that exceeds
  the limit. Among the code points below 256 the whitespace that \<open>int\<close> skips is the
  space, the controls from tab to carriage return, and the two that only Unicode counts,
  U+0085 and U+00A0; the decimal digits are \<open>0\<close> to \<open>9\<close>.
\<close>

definition is_space :: "char \<Rightarrow> bool" where
  "is_space c =
     (c = CHR '' '' \<or> (9 \<le> (of_char c :: nat) \<and> (of_char c :: nat) \<le> 13)
      \<or> (of_char c :: nat) = 133 \<or> (of_char c :: nat) = 160)"

definition is_digit :: "char \<Rightarrow> bool" where
  "is_digit c = (48 \<le> (of_char c :: nat) \<and> (of_char c :: nat) \<le> 57)"

definition digit_value :: "char \<Rightarrow> nat" where
  "digit_value c = of_char c - 48"

fun double_underscore :: "string \<Rightarrow> bool" where
  "double_underscore (a # b # s) =
     ((a = CHR ''_'' \<and> b = CHR ''_'') \<or> double_underscore (b # s))"
| "double_underscore s = False"

definition int_literal :: "nat \<Rightarrow> string \<Rightarrow> py_exception + int" where
  "int_literal maxd s =
     (let t = dropWhile is_space s;
          neg = (t \<noteq> [] \<and> hd t = CHR ''-'');
          u = (if t \<noteq> [] \<and> (hd t = CHR ''+'' \<or> hd t = CHR ''-'') then tl t else t);
          body = takeWhile (\<lambda>c. is_digit c \<or> c = CHR ''_'') u;
          rest = dropWhile (\<lambda>c. is_digit c \<or> c = CHR ''_'') u;
          ds = filter is_digit body
      in if body = [] \<or> hd body = CHR ''_'' \<or> last body = CHR ''_''
            \<or> double_underscore body \<or> \<not> list_all is_space rest
         then Inl (ValueError s)
         else if 640 < length ds \<and> 0 < maxd \<and> maxd < length ds
         then Inl (ValueError s)
         else Inr ((if neg then - 1 else 1)
                   * int (foldl (\<lambda>a c. 10 * a + digit_value c) 0 ds)))"

fun py_int :: "nat \<Rightarrow> pyval \<Rightarrow> py_exception + int" where
  "py_int maxd (PyInt n) = Inr n"
| "py_int maxd (PyStr s) = int_literal maxd s"
| "py_int maxd v = Inl TypeError"

text \<open>
  What a decimal integer literal is, said without the parser: the string with the
  whitespace at both ends and one leading sign taken off is not empty, consists of decimal
  digits and underscores, begins and ends with a digit and has no two underscores in a row.
  A string that is not such a literal is what the properties call non-numeric.
\<close>

definition strip :: "string \<Rightarrow> string" where
  "strip s = rev (dropWhile is_space (rev (dropWhile is_space s)))"

definition unsigned :: "string \<Rightarrow> string" where
  "unsigned s =
     (case s of
        [] \<Rightarrow> []
      | c # r \<Rightarrow> if c = CHR ''+'' \<or> c = CHR ''-'' then r else s)"

definition is_int_literal :: "string \<Rightarrow> bool" where
  "is_int_literal s =
     (let b = unsigned (strip s)
      in b \<noteq> [] \<and> list_all (\<lambda>c. is_digit c \<or> c = CHR ''_'') b
         \<and> is_digit (hd b) \<and> is_digit (last b) \<and> \<not> double_underscore b)"

text \<open>
  The integer that a literal denotes: its digits in base 10, negated when the literal
  begins with a minus sign.
\<close>

definition literal_value :: "string \<Rightarrow> int" where
  "literal_value s =
     (if hd (strip s) = CHR ''-'' then - 1 else 1)
     * int (foldl (\<lambda>a c. 10 * a + digit_value c) 0 (filter is_digit s))"

text \<open>\<open>str(n)\<close> of a natural number: its decimal digits, without leading zeros.\<close>

fun str_nat :: "nat \<Rightarrow> string" where
  "str_nat n =
     (if n < 10 then [char_of (48 + n)]
      else str_nat (n div 10) @ [char_of (48 + n mod 10)])"

declare str_nat.simps [simp del]

section \<open>The agent (app/agent.py)\<close>

record OmegaAgent =
  omega_script :: string
  model :: string
  max_correction_attempts :: int

text \<open>
  The constructor stores its two arguments and \<open>int(settings.MAX_CORRECTION_ATTEMPTS or 3)\<close>.
  An exception of \<open>int\<close> leaves the constructor, and no agent exists then.
\<close>

definition OmegaAgent_init ::
  "nat \<Rightarrow> environ \<Rightarrow> string \<Rightarrow> string \<Rightarrow> py_exception + OmegaAgent" where
  "OmegaAgent_init maxd env script mdl =
     (case py_int maxd (py_or (MAX_CORRECTION_ATTEMPTS env) (PyInt 3)) of
        Inl e \<Rightarrow> Inl e
      | Inr n \<Rightarrow>
          Inr \<lparr>omega_script = script, model = mdl, max_correction_attempts = n\<rparr>)"

text \<open>
  \<open>validate_script\<close> raises or returns \<open>None\<close>; it assigns no attribute of \<open>self\<close>. The
  model returns the outcome together with the agent as the method leaves it.
\<close>

definition validate_script :: "OmegaAgent \<Rightarrow> (py_exception + unit) \<times> OmegaAgent" where
  "validate_script self =
     (if \<not> str_contains ''DEFINE_SYMBOLS'' (omega_script self)
      then (Inl (OmegaValidationError ''Missing DEFINE_SYMBOLS block.''), self)
      else if \<not> str_contains ''WR_SECT'' (omega_script self)
      then (Inl (OmegaValidationError ''Missing WR_SECT command.''), self)
      else (Inr (), self))"

text \<open>
  \<open>run\<close> is a coroutine; awaiting it runs its body in order. It validates, and an
  exception of the validation leaves \<open>run\<close> before anything else happens. Otherwise it
  awaits one call of \<open>call_translator_llm_correction\<close> on \<open>self.omega_script\<close> and returns
  what the call returns. Neither \<open>self.model\<close> nor \<open>self.max_correction_attempts\<close> is
  read.
\<close>

definition run ::
  "provider \<Rightarrow> OmegaAgent \<Rightarrow> world \<Rightarrow> (py_exception + pyval) \<times> OmegaAgent \<times> world" where
  "run acreate self w =
     (case validate_script self of
        (Inl e, self') \<Rightarrow> (Inl e, self', w)
      | (Inr u, self') \<Rightarrow>
          (case call_translator_llm_correction acreate (omega_script self') w of
             (result, w') \<Rightarrow> (result, self', w')))"

section \<open>Logging (app/db.py)\<close>

text \<open>
  \<open>log_interaction\<close> submits one row to the table \<open>query_logs\<close>. The database client
  (\<open>supabase.table(...).insert(...).execute()\<close>) is a parameter: it answers \<open>None\<close> or
  the exception it raises. \<open>except Exception\<close> catches the instances of \<open>Exception\<close> and
  prints a warning with the exception; any other exception leaves the function.
  \<open>print\<close> is a parameter too: it answers \<open>None\<close> when the line has been written, or the
  exception it raises (standard output closed or broken, an encoding error, the
  exception's \<open>__str__\<close> raising). The call of \<open>print\<close> stands in the handler, outside the
  \<open>try\<close>, so its exception leaves the function.
\<close>

type_synonym database =
  "(string \<times> (string \<times> string) list) list \<Rightarrow> string \<Rightarrow> (string \<times> string) list
     \<Rightarrow> py_exception option"

type_synonym console = "print_arg list list \<Rightarrow> print_arg list \<Rightarrow> py_exception option"

definition log_interaction ::
  "database \<Rightarrow> console \<Rightarrow> string \<Rightarrow> string \<Rightarrow> string \<Rightarrow> world
     \<Rightarrow> (py_exception + unit) \<times> world" where
  "log_interaction supabase py_print prompt response mdl w =
     (let data = [(''prompt'', prompt), (''response'', response), (''model'', mdl)];
          w' = w\<lparr>inserts := inserts w @ [(''query_logs'', data)]\<rparr>
      in case supabase (inserts w) ''query_logs'' data of
           None \<Rightarrow> (Inr (), w')
         | Some e \<Rightarrow>
             if is_Exception e
             then (let line = [PrintStr ''Warning: Logging to Supabase failed:'', PrintExc e]
                   in case py_print (printed w') line of
                        None \<Rightarrow> (Inr (), w'\<lparr>printed := printed w' @ [line]\<rparr>)
                      | Some pe \<Rightarrow> (Inl pe, w'))
             else (Inl e, w'))"

section \<open>Examples\<close>

text \<open>
  A well-formed provider response with one choice, whose message has the given content,
  and the world before any call; the concrete runs below use them.
\<close>

definition completion :: "string \<Rightarrow> pyval" where
  "completion out =
     PyDict [(''choices'',
       PyList [PyDict [(''message'',
         PyDict [(''role'', PyStr ''assistant''), (''content'', PyStr out)])]])]"

definition no_calls :: world where
  "no_calls = \<lparr>requests = [], inserts = [], printed = []\<rparr>"

section \<open>Properties\<close>

subsection \<open>Substring test and validation\<close>

text \<open>
  \<open>str_contains\<close> decides the substring relation: \<open>sub in s\<close> holds exactly when
  \<open>s = ps @ sub @ ss\<close> for some \<open>ps\<close> and \<open>ss\<close>, which is \<^const>\<open>sublist\<close>.
\<close>

lemma str_contains_sublist: "str_contains sub s = sublist sub s"
  by (induction s) (auto simp: sublist_Cons_right)

lemma validate_script_Inr:
  "sublist ''DEFINE_SYMBOLS'' (omega_script self) \<Longrightarrow> sublist ''WR_SECT'' (omega_script self)
   \<Longrightarrow> validate_script self = (Inr (), self)"
  by (simp add: validate_script_def str_contains_sublist)

lemma validate_script_no_define:
  "\<not> sublist ''DEFINE_SYMBOLS'' (omega_script self)
   \<Longrightarrow> validate_script self = (Inl (OmegaValidationError ''Missing DEFINE_SYMBOLS block.''), self)"
  by (simp add: validate_script_def str_contains_sublist)

lemma validate_script_no_wr_sect:
  "sublist ''DEFINE_SYMBOLS'' (omega_script self) \<Longrightarrow> \<not> sublist ''WR_SECT'' (omega_script self)
   \<Longrightarrow> validate_script self = (Inl (OmegaValidationError ''Missing WR_SECT command.''), self)"
  by (simp add: validate_script_def str_contains_sublist)

lemma validate_script_agent: "snd (validate_script self) = self"
  by (simp add: validate_script_def)

subsection \<open>One run\<close>

lemma call_world:
  "snd (call_translator_llm_correction acreate prompt w)
     = w\<lparr>requests := requests w @ [correction_request prompt]\<rparr>"
  by (simp add: call_translator_llm_correction_def Let_def split: sum.splits)

lemma run_eq:
  "run acreate self w =
     (case fst (validate_script self) of
        Inl e \<Rightarrow> (Inl e, self, w)
      | Inr u \<Rightarrow>
          (fst (call_translator_llm_correction acreate (omega_script self) w), self,
           snd (call_translator_llm_correction acreate (omega_script self) w)))"
  by (simp add: run_def validate_script_def split: prod.splits)

lemma run_valid:
  "sublist ''DEFINE_SYMBOLS'' (omega_script self) \<Longrightarrow> sublist ''WR_SECT'' (omega_script self)
   \<Longrightarrow> run acreate self w =
         (fst (call_translator_llm_correction acreate (omega_script self) w), self,
          snd (call_translator_llm_correction acreate (omega_script self) w))"
  by (simp add: run_def validate_script_Inr split: prod.splits)

lemma run_invalid:
  "fst (validate_script self) = Inl e \<Longrightarrow> run acreate self w = (Inl e, self, w)"
  by (auto simp: run_def validate_script_def split: if_splits)

lemma run_outcome:
  "fst (run acreate self w) =
     (case fst (validate_script self) of
        Inl e \<Rightarrow> Inl e
      | Inr u \<Rightarrow> fst (call_translator_llm_correction acreate (omega_script self) w))"
  by (simp add: run_def validate_script_def split: prod.splits)

lemma run_agent: "fst (snd (run acreate self w)) = self"
  by (simp add: run_def validate_script_def split: prod.splits)

lemma run_world:
  "snd (snd (run acreate self w)) =
     (case fst (validate_script self) of
        Inl e \<Rightarrow> w
      | Inr u \<Rightarrow> w\<lparr>requests := requests w @ [correction_request (omega_script self)]\<rparr>)"
  by (simp add: run_eq call_world split: sum.splits)

subsection \<open>Scripts with both markers\<close>

text \<open>
  C1. When the script contains both \<open>DEFINE_SYMBOLS\<close> and \<open>WR_SECT\<close>, \<open>run\<close> is one call of
  \<open>call_translator_llm_correction\<close> on the script: it returns what that call returns, the
  agent is as before, and the world has changed as that call changes it, which is by one
  request whose user message is the whole script. The result is the content of the
  provider's answer to that request, whatever it is; nothing looks at it again.
\<close>

theorem run_valid_script_corrects_once:
  assumes "sublist ''DEFINE_SYMBOLS'' (omega_script self)"
      and "sublist ''WR_SECT'' (omega_script self)"
  shows "run acreate self w =
           (fst (call_translator_llm_correction acreate (omega_script self) w), self,
            snd (call_translator_llm_correction acreate (omega_script self) w))
         \<and> snd (call_translator_llm_correction acreate (omega_script self) w) =
             w\<lparr>requests := requests w @
               [\<lparr>req_model = ''gpt-4'',
                 messages = [\<lparr>role = ''system'', content = correction_system_prompt\<rparr>,
                             \<lparr>role = ''user'', content = omega_script self\<rparr>],
                 temperature = 1 / 10\<rparr>]\<rparr>
         \<and> fst (run acreate self w) =
             (case acreate (requests w) (correction_request (omega_script self)) of
                Inl e \<Rightarrow> Inl e
              | Inr response \<Rightarrow> response_content response)"
proof -
  have "fst (call_translator_llm_correction acreate (omega_script self) w) =
          (case acreate (requests w) (correction_request (omega_script self)) of
             Inl e \<Rightarrow> Inl e
           | Inr response \<Rightarrow> response_content response)"
    by (simp add: call_translator_llm_correction_def Let_def split: sum.splits)
  with run_valid [OF assms, of acreate w] show ?thesis
    by (simp add: call_world correction_request_def)
qed

text \<open>
  The script \<open>DEFINE_SYMBOLS\<newline>WR_SECT foo\<close>, with a provider that answers \<open>plain text\<close>
  (which has no marker): the result is \<open>plain text\<close>, after one request.
\<close>

theorem run_valid_script_corrects_once_witness:
  "sublist ''DEFINE_SYMBOLS'' ''DEFINE_SYMBOLS\<newline>WR_SECT foo''
   \<and> sublist ''WR_SECT'' ''DEFINE_SYMBOLS\<newline>WR_SECT foo''
   \<and> \<not> sublist ''DEFINE_SYMBOLS'' ''plain text''
   \<and> run (\<lambda>h r. Inr (completion ''plain text''))
        \<lparr>omega_script = ''DEFINE_SYMBOLS\<newline>WR_SECT foo'', model = ''openai-gpt4'',
         max_correction_attempts = 3\<rparr> no_calls
      = (Inr (PyStr ''plain text''),
         \<lparr>omega_script = ''DEFINE_SYMBOLS\<newline>WR_SECT foo'', model = ''openai-gpt4'',
          max_correction_attempts = 3\<rparr>,
         \<lparr>requests =
            [\<lparr>req_model = ''gpt-4'',
              messages = [\<lparr>role = ''system'', content = correction_system_prompt\<rparr>,
                          \<lparr>role = ''user'', content = ''DEFINE_SYMBOLS\<newline>WR_SECT foo''\<rparr>],
              temperature = 1 / 10\<rparr>],
          inserts = [], printed = []\<rparr>)"
  using run_valid_script_corrects_once
    [of "\<lparr>omega_script = ''DEFINE_SYMBOLS\<newline>WR_SECT foo'', model = ''openai-gpt4'',
          max_correction_attempts = 3\<rparr>" "\<lambda>h r. Inr (completion ''plain text'')" no_calls]
  by (simp add: str_contains_sublist [symmetric] call_translator_llm_correction_def
      response_content_def completion_def no_calls_def py_index_def correction_request_def)

subsection \<open>Scripts that fail validation\<close>

text \<open>
  C2. When the script does not contain \<open>DEFINE_SYMBOLS\<close>, \<open>run\<close> fails with the validation
  error \<open>Missing DEFINE_SYMBOLS block.\<close>, whether or not \<open>WR_SECT\<close> occurs in it; the empty
  script is one such script.
\<close>

theorem run_missing_define_symbols:
  assumes "\<not> sublist ''DEFINE_SYMBOLS'' (omega_script self)"
  shows "fst (run acreate self w) = Inl (OmegaValidationError ''Missing DEFINE_SYMBOLS block.'')"
  using assms by (simp add: run_def validate_script_no_define)

text \<open>The scripts \<open>WR_SECT only\<close>, which has the other marker, and the empty script.\<close>

theorem run_missing_define_symbols_witness:
  "\<not> sublist ''DEFINE_SYMBOLS'' ''WR_SECT only''
   \<and> sublist ''WR_SECT'' ''WR_SECT only''
   \<and> fst (run (\<lambda>h r. Inr (completion ''DEFINE_SYMBOLS WR_SECT''))
        \<lparr>omega_script = ''WR_SECT only'', model = ''openai-gpt4'',
         max_correction_attempts = 3\<rparr> no_calls)
      = Inl (OmegaValidationError ''Missing DEFINE_SYMBOLS block.'')
   \<and> \<not> sublist ''DEFINE_SYMBOLS'' ''''
   \<and> fst (run (\<lambda>h r. Inr (completion ''DEFINE_SYMBOLS WR_SECT''))
        \<lparr>omega_script = '''', model = ''openai-gpt4'',
         max_correction_attempts = 3\<rparr> no_calls)
      = Inl (OmegaValidationError ''Missing DEFINE_SYMBOLS block.'')"
  using run_missing_define_symbols
    [of "\<lparr>omega_script = ''WR_SECT only'', model = ''openai-gpt4'',
          max_correction_attempts = 3\<rparr>"
        "\<lambda>h r. Inr (completion ''DEFINE_SYMBOLS WR_SECT'')" no_calls]
    run_missing_define_symbols
    [of "\<lparr>omega_script = '''', model = ''openai-gpt4'',
          max_correction_attempts = 3\<rparr>"
        "\<lambda>h r. Inr (completion ''DEFINE_SYMBOLS WR_SECT'')" no_calls]
  by (simp add: str_contains_sublist [symmetric])

text \<open>
  C3. When the script contains \<open>DEFINE_SYMBOLS\<close> and does not contain \<open>WR_SECT\<close>, \<open>run\<close>
  fails with the validation error \<open>Missing WR_SECT command.\<close>.
\<close>

theorem run_missing_wr_sect:
  assumes "sublist ''DEFINE_SYMBOLS'' (omega_script self)"
      and "\<not> sublist ''WR_SECT'' (omega_script self)"
  shows "fst (run acreate self w) = Inl (OmegaValidationError ''Missing WR_SECT command.'')"
  using assms by (simp add: run_def validate_script_no_wr_sect)

text \<open>The script \<open>DEFINE_SYMBOLS only\<close>.\<close>

theorem run_missing_wr_sect_witness:
  "sublist ''DEFINE_SYMBOLS'' ''DEFINE_SYMBOLS only''
   \<and> \<not> sublist ''WR_SECT'' ''DEFINE_SYMBOLS only''
   \<and> fst (run (\<lambda>h r. Inr (completion ''DEFINE_SYMBOLS WR_SECT''))
        \<lparr>omega_script = ''DEFINE_SYMBOLS only'', model = ''openai-gpt4'',
         max_correction_attempts = 3\<rparr> no_calls)
      = Inl (OmegaValidationError ''Missing WR_SECT command.'')"
  using run_missing_wr_sect
    [of "\<lparr>omega_script = ''DEFINE_SYMBOLS only'', model = ''openai-gpt4'',
          max_correction_attempts = 3\<rparr>"
        "\<lambda>h r. Inr (completion ''DEFINE_SYMBOLS WR_SECT'')" no_calls]
  by (simp add: str_contains_sublist [symmetric])

text \<open>
  C4. When a marker is missing, the validation error is the outcome of \<open>run\<close>, and the
  world after \<open>run\<close> is the world before it: no request has been sent, so the correction
  has not been called. The provider does not occur in the outcome.
\<close>

theorem run_invalid_script_no_correction:
  assumes "\<not> sublist ''DEFINE_SYMBOLS'' (omega_script self)
           \<or> \<not> sublist ''WR_SECT'' (omega_script self)"
  shows "\<exists>msg. fst (validate_script self) = Inl (OmegaValidationError msg)
           \<and> run acreate self w = (Inl (OmegaValidationError msg), self, w)"
proof (cases "sublist ''DEFINE_SYMBOLS'' (omega_script self)")
  case True
  with assms have "fst (validate_script self) = Inl (OmegaValidationError ''Missing WR_SECT command.'')"
    by (simp add: validate_script_no_wr_sect)
  then show ?thesis by (simp add: run_invalid)
next
  case False
  then have "fst (validate_script self) = Inl (OmegaValidationError ''Missing DEFINE_SYMBOLS block.'')"
    by (simp add: validate_script_no_define)
  then show ?thesis by (simp add: run_invalid)
qed

text \<open>The script \<open>WR_SECT only\<close>, from a world without requests.\<close>

theorem run_invalid_script_no_correction_witness:
  "\<not> sublist ''DEFINE_SYMBOLS'' ''WR_SECT only''
   \<and> run (\<lambda>h r. Inr (completion ''DEFINE_SYMBOLS WR_SECT''))
        \<lparr>omega_script = ''WR_SECT only'', model = ''openai-gpt4'',
         max_correction_attempts = 3\<rparr> no_calls
      = (Inl (OmegaValidationError ''Missing DEFINE_SYMBOLS block.''),
         \<lparr>omega_script = ''WR_SECT only'', model = ''openai-gpt4'',
          max_correction_attempts = 3\<rparr>, no_calls)
   \<and> requests no_calls = []"
  using run_invalid_script_no_correction
    [of "\<lparr>omega_script = ''WR_SECT only'', model = ''openai-gpt4'',
          max_correction_attempts = 3\<rparr>"
        "\<lambda>h r. Inr (completion ''DEFINE_SYMBOLS WR_SECT'')" no_calls]
  by (auto simp: str_contains_sublist [symmetric] validate_script_def no_calls_def)

subsection \<open>What \<open>run\<close> does not read\<close>

text \<open>
  A script without \<open>DEFINE_SYMBOLS\<close> causes no correction call at all, for the attempt
  count 1 as for 50: the requests after the run are none, not one.
\<close>

theorem run_one_call_every_script_counterexample:
  "requests (snd (snd (run (\<lambda>h r. Inr (completion ''DEFINE_SYMBOLS WR_SECT''))
        \<lparr>omega_script = ''WR_SECT only'', model = ''openai-gpt4'',
         max_correction_attempts = 1\<rparr> no_calls))) = []
   \<and> requests (snd (snd (run (\<lambda>h r. Inr (completion ''DEFINE_SYMBOLS WR_SECT''))
        \<lparr>omega_script = ''WR_SECT only'', model = ''openai-gpt4'',
         max_correction_attempts = 50\<rparr> no_calls))) = []"
  by (simp add: run_def validate_script_def no_calls_def)

text \<open>
  C6, as the code has it. Two agents that differ in \<open>max_correction_attempts\<close> only run
  alike, on every script: the same outcome and the same world after it. For every attempt
  count the run is this: a script with both markers causes exactly one correction call,
  the outcome is what that call returns (the corrected text is not validated and nothing
  is tried again), and the world has that one request more; a script with a marker
  missing causes no call, and the outcome is the validation error.
\<close>

theorem run_ignores_max_correction_attempts:
  "fst (run acreate (self\<lparr>max_correction_attempts := m1\<rparr>) w)
     = fst (run acreate (self\<lparr>max_correction_attempts := m2\<rparr>) w)
   \<and> snd (snd (run acreate (self\<lparr>max_correction_attempts := m1\<rparr>) w))
     = snd (snd (run acreate (self\<lparr>max_correction_attempts := m2\<rparr>) w))
   \<and> run acreate (self\<lparr>max_correction_attempts := m1\<rparr>) w =
       (if sublist ''DEFINE_SYMBOLS'' (omega_script self)
           \<and> sublist ''WR_SECT'' (omega_script self)
        then (fst (call_translator_llm_correction acreate (omega_script self) w),
              self\<lparr>max_correction_attempts := m1\<rparr>,
              w\<lparr>requests := requests w @ [correction_request (omega_script self)]\<rparr>)
        else (Inl (OmegaValidationError
                (if sublist ''DEFINE_SYMBOLS'' (omega_script self)
                 then ''Missing WR_SECT command.'' else ''Missing DEFINE_SYMBOLS block.'')),
              self\<lparr>max_correction_attempts := m1\<rparr>, w))"
  by (simp add: run_eq run_outcome run_world call_world validate_script_def
      str_contains_sublist)

text \<open>
  The attempt counts 1 and 50, with a provider whose answer \<open>DEFINE_SYMBOLS fixed\<close> would
  not pass the validation: the answer is the result, after one request. The script
  \<open>WR_SECT only\<close> sends none.
\<close>

theorem run_ignores_max_correction_attempts_witness:
  "\<not> sublist ''WR_SECT'' ''DEFINE_SYMBOLS fixed''
   \<and> run (\<lambda>h r. Inr (completion ''DEFINE_SYMBOLS fixed''))
        \<lparr>omega_script = ''DEFINE_SYMBOLS WR_SECT'', model = ''openai-gpt4'',
         max_correction_attempts = 1\<rparr> no_calls
     = (Inr (PyStr ''DEFINE_SYMBOLS fixed''),
        \<lparr>omega_script = ''DEFINE_SYMBOLS WR_SECT'', model = ''openai-gpt4'',
         max_correction_attempts = 1\<rparr>,
        \<lparr>requests = [correction_request ''DEFINE_SYMBOLS WR_SECT''], inserts = [],
         printed = []\<rparr>)
   \<and> run (\<lambda>h r. Inr (completion ''DEFINE_SYMBOLS fixed''))
        \<lparr>omega_script = ''DEFINE_SYMBOLS WR_SECT'', model = ''openai-gpt4'',
         max_correction_attempts = 50\<rparr> no_calls
     = (Inr (PyStr ''DEFINE_SYMBOLS fixed''),
        \<lparr>omega_script = ''DEFINE_SYMBOLS WR_SECT'', model = ''openai-gpt4'',
         max_correction_attempts = 50\<rparr>,
        \<lparr>requests = [correction_request ''DEFINE_SYMBOLS WR_SECT''], inserts = [],
         printed = []\<rparr>)
   \<and> run (\<lambda>h r. Inr (completion ''DEFINE_SYMBOLS fixed''))
        \<lparr>omega_script = ''WR_SECT only'', model = ''openai-gpt4'',
         max_correction_attempts = 50\<rparr> no_calls
     = (Inl (OmegaValidationError ''Missing DEFINE_SYMBOLS block.''),
        \<lparr>omega_script = ''WR_SECT only'', model = ''openai-gpt4'',
         max_correction_attempts = 50\<rparr>, no_calls)"
  using run_ignores_max_correction_attempts
    [where acreate = "\<lambda>h r. Inr (completion ''DEFINE_SYMBOLS fixed'')"
       and self = "\<lparr>omega_script = ''DEFINE_SYMBOLS WR_SECT'', model = ''openai-gpt4'',
          max_correction_attempts = 3\<rparr>"
       and ?m1.0 = 1 and w = no_calls and ?m2.0 = 50]
    run_ignores_max_correction_attempts
    [where acreate = "\<lambda>h r. Inr (completion ''DEFINE_SYMBOLS fixed'')"
       and self = "\<lparr>omega_script = ''DEFINE_SYMBOLS WR_SECT'', model = ''openai-gpt4'',
          max_correction_attempts = 3\<rparr>"
       and ?m1.0 = 50 and w = no_calls and ?m2.0 = 1]
    run_ignores_max_correction_attempts
    [where acreate = "\<lambda>h r. Inr (completion ''DEFINE_SYMBOLS fixed'')"
       and self = "\<lparr>omega_script = ''WR_SECT only'', model = ''openai-gpt4'',
          max_correction_attempts = 3\<rparr>"
       and ?m1.0 = 50 and w = no_calls and ?m2.0 = 1]
  by (simp add: str_contains_sublist [symmetric] call_translator_llm_correction_def
      response_content_def completion_def no_calls_def py_index_def)

text \<open>
  C7. When the script has both markers and the call of \<open>call_translator_llm_correction\<close>
  raises an exception, of any class, \<open>run\<close> raises that exception: it is not caught, not
  replaced and not retried, as the one request shows.
\<close>

theorem run_propagates_capability_failure:
  assumes "sublist ''DEFINE_SYMBOLS'' (omega_script self)"
      and "sublist ''WR_SECT'' (omega_script self)"
      and "fst (call_translator_llm_correction acreate (omega_script self) w) = Inl e"
  shows "fst (run acreate self w) = Inl e
         \<and> requests (snd (snd (run acreate self w)))
             = requests w @ [correction_request (omega_script self)]"
  using assms by (simp add: run_valid call_world)

text \<open>A provider that raises a rate-limit error.\<close>

theorem run_propagates_capability_failure_witness:
  "sublist ''DEFINE_SYMBOLS'' ''DEFINE_SYMBOLS WR_SECT''
   \<and> sublist ''WR_SECT'' ''DEFINE_SYMBOLS WR_SECT''
   \<and> fst (call_translator_llm_correction
            (\<lambda>h r. Inl (OtherException ''RateLimitError'' ''quota exceeded''))
            ''DEFINE_SYMBOLS WR_SECT'' no_calls)
       = Inl (OtherException ''RateLimitError'' ''quota exceeded'')
   \<and> fst (run (\<lambda>h r. Inl (OtherException ''RateLimitError'' ''quota exceeded''))
            \<lparr>omega_script = ''DEFINE_SYMBOLS WR_SECT'', model = ''openai-gpt4'',
             max_correction_attempts = 3\<rparr> no_calls)
       = Inl (OtherException ''RateLimitError'' ''quota exceeded'')
   \<and> requests (snd (snd (run (\<lambda>h r. Inl (OtherException ''RateLimitError'' ''quota exceeded''))
            \<lparr>omega_script = ''DEFINE_SYMBOLS WR_SECT'', model = ''openai-gpt4'',
             max_correction_attempts = 3\<rparr> no_calls)))
       = [correction_request ''DEFINE_SYMBOLS WR_SECT'']"
  using run_propagates_capability_failure
    [of "\<lparr>omega_script = ''DEFINE_SYMBOLS WR_SECT'', model = ''openai-gpt4'',
          max_correction_attempts = 3\<rparr>"
        "\<lambda>h r. Inl (OtherException ''RateLimitError'' ''quota exceeded'')" no_calls
        "OtherException ''RateLimitError'' ''quota exceeded''"]
  by (simp add: str_contains_sublist [symmetric] call_translator_llm_correction_def
      no_calls_def)

text \<open>
  The model identifier of the agent does not reach the provider. For the agent with the
  model \<open>openai-gpt4\<close> the one request names the model \<open>gpt-4\<close>, and the agent with another
  model gets the same result from the same world.
\<close>

theorem model_passed_through_counterexample:
  "map req_model (requests (snd (snd (run (\<lambda>h r. Inr (completion ''plain text''))
        \<lparr>omega_script = ''DEFINE_SYMBOLS WR_SECT'', model = ''openai-gpt4'',
         max_correction_attempts = 3\<rparr> no_calls)))) = [''gpt-4'']
   \<and> model \<lparr>omega_script = ''DEFINE_SYMBOLS WR_SECT'', model = ''openai-gpt4'',
         max_correction_attempts = 3\<rparr> \<noteq> ''gpt-4''
   \<and> run (\<lambda>h r. Inr (completion ''plain text''))
        \<lparr>omega_script = ''DEFINE_SYMBOLS WR_SECT'', model = ''another-model'',
         max_correction_attempts = 3\<rparr> no_calls
     = (Inr (PyStr ''plain text''),
        \<lparr>omega_script = ''DEFINE_SYMBOLS WR_SECT'', model = ''another-model'',
         max_correction_attempts = 3\<rparr>,
        snd (snd (run (\<lambda>h r. Inr (completion ''plain text''))
          \<lparr>omega_script = ''DEFINE_SYMBOLS WR_SECT'', model = ''openai-gpt4'',
           max_correction_attempts = 3\<rparr> no_calls)))"
  by (simp add: run_def validate_script_def call_translator_llm_correction_def
      response_content_def completion_def no_calls_def py_index_def correction_request_def)

text \<open>
  C9, as the code has it. \<open>run\<close> performs no validation of the model identifier and does
  not pass it on: for every identifier the outcome and the world are the same, the agent
  keeps the identifier it was given, and the request that a script with both markers
  causes names the fixed model \<open>gpt-4\<close>.
\<close>

theorem run_never_reads_model:
  "fst (run acreate (self\<lparr>model := m\<rparr>) w) = fst (run acreate self w)
   \<and> snd (snd (run acreate (self\<lparr>model := m\<rparr>) w)) = snd (snd (run acreate self w))
   \<and> fst (snd (run acreate (self\<lparr>model := m\<rparr>) w)) = self\<lparr>model := m\<rparr>
   \<and> map req_model (requests (snd (snd (run acreate (self\<lparr>model := m\<rparr>) w))))
       = map req_model (requests w) @
           (if sublist ''DEFINE_SYMBOLS'' (omega_script self)
               \<and> sublist ''WR_SECT'' (omega_script self)
            then [''gpt-4''] else [])"
  by (simp add: run_outcome run_world run_agent validate_script_def str_contains_sublist
      correction_request_def)

text \<open>An identifier that names no model: the run succeeds, with a request to \<open>gpt-4\<close>.\<close>

theorem run_never_reads_model_witness:
  "map req_model (requests (snd (snd (run (\<lambda>h r. Inr (completion ''plain text''))
        \<lparr>omega_script = ''DEFINE_SYMBOLS WR_SECT'', model = ''no such model !'',
         max_correction_attempts = 3\<rparr> no_calls)))) = [''gpt-4'']
   \<and> fst (run (\<lambda>h r. Inr (completion ''plain text''))
        \<lparr>omega_script = ''DEFINE_SYMBOLS WR_SECT'', model = ''no such model !'',
         max_correction_attempts = 3\<rparr> no_calls) = Inr (PyStr ''plain text'')"
  using run_never_reads_model
    [where acreate = "\<lambda>h r. Inr (completion ''plain text'')"
       and self = "\<lparr>omega_script = ''DEFINE_SYMBOLS WR_SECT'', model = ''openai-gpt4'',
          max_correction_attempts = 3\<rparr>"
       and m = "''no such model !''" and w = no_calls]
  by (simp add: run_def validate_script_def call_translator_llm_correction_def
      response_content_def completion_def no_calls_def py_index_def correction_request_def)

text \<open>
  C10. \<open>validate_script\<close> and \<open>run\<close> leave the agent as it was, whether they return or
  raise: \<open>omega_script\<close>, \<open>model\<close> and \<open>max_correction_attempts\<close> are unchanged.
\<close>

theorem run_and_validate_keep_agent:
  "snd (validate_script self) = self
   \<and> fst (snd (run acreate self w)) = self
   \<and> omega_script (fst (snd (run acreate self w))) = omega_script self
   \<and> model (fst (snd (run acreate self w))) = model self
   \<and> max_correction_attempts (fst (snd (run acreate self w))) = max_correction_attempts self"
  by (simp add: validate_script_agent run_agent)

text \<open>A run that returns and a run that raises.\<close>

theorem run_and_validate_keep_agent_witness:
  "fst (snd (run (\<lambda>h r. Inr (completion ''plain text''))
        \<lparr>omega_script = ''DEFINE_SYMBOLS WR_SECT'', model = ''openai-gpt4'',
         max_correction_attempts = 3\<rparr> no_calls))
     = \<lparr>omega_script = ''DEFINE_SYMBOLS WR_SECT'', model = ''openai-gpt4'',
        max_correction_attempts = 3\<rparr>
   \<and> fst (snd (run (\<lambda>h r. Inl (OtherException ''RateLimitError'' ''quota exceeded''))
        \<lparr>omega_script = ''WR_SECT only'', model = ''openai-gpt4'',
         max_correction_attempts = 3\<rparr> no_calls))
     = \<lparr>omega_script = ''WR_SECT only'', model = ''openai-gpt4'',
        max_correction_attempts = 3\<rparr>"
  using run_and_validate_keep_agent
    [of "\<lparr>omega_script = ''DEFINE_SYMBOLS WR_SECT'', model = ''openai-gpt4'',
          max_correction_attempts = 3\<rparr>"
        "\<lambda>h r. Inr (completion ''plain text'')" no_calls]
    run_and_validate_keep_agent
    [of "\<lparr>omega_script = ''WR_SECT only'', model = ''openai-gpt4'',
          max_correction_attempts = 3\<rparr>"
        "\<lambda>h r. Inl (OtherException ''RateLimitError'' ''quota exceeded'')" no_calls]
  by simp

subsection \<open>Decimal literals\<close>

text \<open>
  \<open>int\<close> accepts exactly the decimal integer literals: a string that is not one raises
  \<open>ValueError\<close>, and a literal gives its value unless it has more digits than the
  interpreter's limit allows. In particular \<open>int\<close> reads back what \<open>str\<close> writes.
\<close>

lemma is_digit_char_of: "(d::nat) < 10 \<Longrightarrow> is_digit (char_of (48 + d))"
  by (simp add: is_digit_def)

lemma digit_value_char_of: "(d::nat) < 10 \<Longrightarrow> digit_value (char_of (48 + d)) = d"
  by (simp add: digit_value_def)

lemma is_digit_not_special:
  "is_digit c \<Longrightarrow> \<not> is_space c \<and> c \<noteq> CHR ''_'' \<and> c \<noteq> CHR ''+'' \<and> c \<noteq> CHR ''-''"
  by (auto simp: is_digit_def is_space_def)

lemma is_space_not_literal_char: "is_space c \<Longrightarrow> \<not> is_digit c \<and> c \<noteq> CHR ''_''"
  by (auto simp: is_digit_def is_space_def)

lemma sign_not_space: "\<not> is_space (CHR ''+'') \<and> \<not> is_space (CHR ''-'')"
  by (simp add: is_space_def)

lemma str_nat_digits: "list_all is_digit (str_nat n)"
  by (induction n rule: str_nat.induct) (subst str_nat.simps, simp add: is_digit_char_of)

lemma str_nat_not_Nil: "str_nat n \<noteq> []"
  by (subst str_nat.simps) simp

lemma str_nat_horner:
  "foldl (\<lambda>a c. 10 * a + digit_value c) 0 (str_nat n) = n"
  by (induction n rule: str_nat.induct) (subst str_nat.simps, simp add: digit_value_char_of)

lemma digits_no_double_underscore: "list_all is_digit s \<Longrightarrow> \<not> double_underscore s"
  by (induction s rule: double_underscore.induct) (auto dest: is_digit_not_special)

lemma int_literal_outcome:
  "int_literal maxd s = Inl (ValueError s) \<or> (\<exists>n. int_literal maxd s = Inr n)"
  by (simp add: int_literal_def Let_def)

lemma dropWhile_unchanged: "xs = [] \<or> \<not> P (hd xs) \<Longrightarrow> dropWhile P xs = xs"
  by (cases xs) auto

lemma takeWhile_none: "xs = [] \<or> \<not> P (hd xs) \<Longrightarrow> takeWhile P xs = []"
  by (cases xs) auto

lemma strip_sandwich:
  assumes "list_all is_space a" and "list_all is_space r"
      and "m \<noteq> []" and "\<not> is_space (hd m)" and "\<not> is_space (last m)"
  shows "strip (a @ m @ r) = m"
proof -
  have "dropWhile is_space (a @ m @ r) = dropWhile is_space (m @ r)"
    using assms(1) by (simp add: list_all_iff dropWhile_append2)
  also have "\<dots> = m @ r"
    using assms(3,4) by (intro dropWhile_unchanged) simp
  finally have front: "dropWhile is_space (a @ m @ r) = m @ r" .
  have "dropWhile is_space (rev r @ rev m) = dropWhile is_space (rev m)"
    using assms(2) by (intro dropWhile_append2) (simp add: list_all_iff)
  also have "\<dots> = rev m"
    using assms(3,5) by (intro dropWhile_unchanged) (simp add: hd_rev)
  finally show ?thesis
    by (simp add: strip_def front)
qed

lemma int_literal_Inr_is_literal:
  assumes "int_literal maxd s = Inr n"
  shows "is_int_literal s"
proof -
  define t where "t = dropWhile is_space s"
  define sg where "sg = (if t \<noteq> [] \<and> (hd t = CHR ''+'' \<or> hd t = CHR ''-'') then [hd t] else [])"
  define u where "u = (if t \<noteq> [] \<and> (hd t = CHR ''+'' \<or> hd t = CHR ''-'') then tl t else t)"
  define body where "body = takeWhile (\<lambda>c. is_digit c \<or> c = CHR ''_'') u"
  define rest where "rest = dropWhile (\<lambda>c. is_digit c \<or> c = CHR ''_'') u"
  have ok: "body \<noteq> []" "hd body \<noteq> CHR ''_''" "last body \<noteq> CHR ''_''"
    "\<not> double_underscore body" "list_all is_space rest"
    using assms
    unfolding int_literal_def Let_def t_def [symmetric] u_def [symmetric]
      body_def [symmetric] rest_def [symmetric]
    by (auto split: if_splits)
  have chars: "list_all (\<lambda>c. is_digit c \<or> c = CHR ''_'') body"
    by (auto simp: body_def list_all_iff dest: set_takeWhileD)
  have "hd body \<in> set body" "last body \<in> set body"
    using ok(1) by simp_all
  with chars ok(2,3) have ends: "is_digit (hd body)" "is_digit (last body)"
    by (auto simp: list_all_iff)
  have u: "u = body @ rest"
    by (simp add: body_def rest_def)
  have t: "t = sg @ u"
    by (cases t) (auto simp: sg_def u_def)
  have "s = takeWhile is_space s @ t"
    by (simp add: t_def)
  with t u have s: "s = takeWhile is_space s @ (sg @ body) @ rest"
    by simp
  have hd_m: "\<not> is_space (hd (sg @ body))"
    using ends(1) is_digit_not_special sign_not_space ok(1)
    by (auto simp: sg_def)
  have last_m: "\<not> is_space (last (sg @ body))"
    using ends(2) is_digit_not_special ok(1) by simp
  have "strip (takeWhile is_space s @ (sg @ body) @ rest) = sg @ body"
    using ok(1,5) hd_m last_m
    by (intro strip_sandwich) (auto simp: list_all_iff dest: set_takeWhileD)
  with s have strip: "strip s = sg @ body" by simp
  have "unsigned (sg @ body) = body"
  proof (cases "sg = []")
    case True
    then have "t = body @ rest" using t u by simp
    with True ok(1) have "hd body \<noteq> CHR ''+'' \<and> hd body \<noteq> CHR ''-''"
      by (auto simp: sg_def split: if_splits)
    with True ok(1) show ?thesis
      by (cases body) (auto simp: unsigned_def)
  next
    case False
    then show ?thesis
      by (auto simp: sg_def unsigned_def split: if_splits)
  qed
  with strip ok chars ends show ?thesis
    by (simp add: is_int_literal_def)
qed

lemma int_literal_non_numeric:
  "\<not> is_int_literal s \<Longrightarrow> int_literal maxd s = Inl (ValueError s)"
  using int_literal_outcome [of maxd s] int_literal_Inr_is_literal [of maxd s] by auto

lemma filter_digit_spaces: "list_all is_space a \<Longrightarrow> filter is_digit a = []"
  by (auto simp: list_all_iff filter_empty_conv dest: is_space_not_literal_char)

lemma filter_digit_unsigned: "filter is_digit (unsigned m) = filter is_digit m"
  by (cases m) (auto simp: unsigned_def is_digit_def)

lemma literal_parts:
  assumes "is_int_literal s"
  obtains b r where
    "(if dropWhile is_space s \<noteq> []
         \<and> (hd (dropWhile is_space s) = CHR ''+'' \<or> hd (dropWhile is_space s) = CHR ''-'')
      then tl (dropWhile is_space s) else dropWhile is_space s) = b @ r"
    "takeWhile (\<lambda>c. is_digit c \<or> c = CHR ''_'') (b @ r) = b"
    "dropWhile (\<lambda>c. is_digit c \<or> c = CHR ''_'') (b @ r) = r"
    "list_all is_space r" "b \<noteq> []" "hd b \<noteq> CHR ''_''" "last b \<noteq> CHR ''_''"
    "\<not> double_underscore b" "filter is_digit s = filter is_digit b"
proof -
  define t where "t = dropWhile is_space s"
  define m where "m = strip s"
  define r where "r = rev (takeWhile is_space (rev t))"
  define b where "b = unsigned m"
  have lit: "b \<noteq> []" "list_all (\<lambda>c. is_digit c \<or> c = CHR ''_'') b" "is_digit (hd b)"
    "is_digit (last b)" "\<not> double_underscore b"
    using assms(1) by (simp_all add: is_int_literal_def b_def m_def Let_def)
  have "m @ r = rev (takeWhile is_space (rev t) @ dropWhile is_space (rev t))"
    by (simp only: rev_append m_def r_def strip_def t_def)
  also have "\<dots> = rev (rev t)"
    by (simp only: takeWhile_dropWhile_id)
  finally have t: "t = m @ r"
    by simp
  have r: "list_all is_space r"
    by (auto simp: r_def list_all_iff dest: set_takeWhileD)
  have m: "m \<noteq> []"
    using lit(1) by (auto simp: b_def unsigned_def)
  have u: "(if t \<noteq> [] \<and> (hd t = CHR ''+'' \<or> hd t = CHR ''-'') then tl t else t) = b @ r"
    using m t by (cases m) (auto simp: b_def unsigned_def)
  have rP: "r = [] \<or> \<not> (is_digit (hd r) \<or> hd r = CHR ''_'')"
    using r is_space_not_literal_char by (cases r) auto
  have body: "takeWhile (\<lambda>c. is_digit c \<or> c = CHR ''_'') (b @ r) = b"
    using lit(2)
      takeWhile_none [where P = "\<lambda>c. is_digit c \<or> c = CHR ''_''" and xs = r, OF rP]
    by (simp add: list_all_iff)
  have rest: "dropWhile (\<lambda>c. is_digit c \<or> c = CHR ''_'') (b @ r) = r"
    using lit(2)
      dropWhile_unchanged [where P = "\<lambda>c. is_digit c \<or> c = CHR ''_''" and xs = r, OF rP]
    by (simp add: list_all_iff)
  have "s = takeWhile is_space s @ t"
    by (simp add: t_def)
  then have "filter is_digit s = filter is_digit (takeWhile is_space s) @ filter is_digit t"
    by (metis filter_append)
  moreover have "filter is_digit (takeWhile is_space s) = []"
    by (intro filter_digit_spaces) (auto simp: list_all_iff dest: set_takeWhileD)
  ultimately have ds: "filter is_digit s = filter is_digit b"
    using filter_digit_spaces [OF r] by (simp add: t b_def filter_digit_unsigned)
  have ends: "hd b \<noteq> CHR ''_''" "last b \<noteq> CHR ''_''"
    using lit(3,4) is_digit_not_special by auto
  show ?thesis
    using that [OF u [unfolded t_def] body rest r lit(1) ends lit(5) ds] .
qed

lemma int_literal_accepts:
  assumes "is_int_literal s"
      and "\<not> (640 < length (filter is_digit s) \<and> 0 < maxd \<and> maxd < length (filter is_digit s))"
  shows "int_literal maxd s =
           Inr ((if dropWhile is_space s \<noteq> [] \<and> hd (dropWhile is_space s) = CHR ''-''
                 then - 1 else 1)
                * int (foldl (\<lambda>a c. 10 * a + digit_value c) 0 (filter is_digit s)))"
proof -
  from assms(1) obtain b r where p:
    "(if dropWhile is_space s \<noteq> []
         \<and> (hd (dropWhile is_space s) = CHR ''+'' \<or> hd (dropWhile is_space s) = CHR ''-'')
      then tl (dropWhile is_space s) else dropWhile is_space s) = b @ r"
    "takeWhile (\<lambda>c. is_digit c \<or> c = CHR ''_'') (b @ r) = b"
    "dropWhile (\<lambda>c. is_digit c \<or> c = CHR ''_'') (b @ r) = r"
    "list_all is_space r" "b \<noteq> []" "hd b \<noteq> CHR ''_''" "last b \<noteq> CHR ''_''"
    "\<not> double_underscore b" "filter is_digit s = filter is_digit b"
    by (rule literal_parts)
  show ?thesis
    unfolding int_literal_def Let_def p(1) p(2) p(3)
    using p(4-8) assms(2) by (simp add: p(9))
qed

lemma int_literal_over_limit:
  assumes "is_int_literal s"
      and "640 < length (filter is_digit s)" and "0 < maxd" and "maxd < length (filter is_digit s)"
  shows "int_literal maxd s = Inl (ValueError s)"
proof -
  from assms(1) obtain b r where p:
    "(if dropWhile is_space s \<noteq> []
         \<and> (hd (dropWhile is_space s) = CHR ''+'' \<or> hd (dropWhile is_space s) = CHR ''-'')
      then tl (dropWhile is_space s) else dropWhile is_space s) = b @ r"
    "takeWhile (\<lambda>c. is_digit c \<or> c = CHR ''_'') (b @ r) = b"
    "dropWhile (\<lambda>c. is_digit c \<or> c = CHR ''_'') (b @ r) = r"
    "list_all is_space r" "b \<noteq> []" "hd b \<noteq> CHR ''_''" "last b \<noteq> CHR ''_''"
    "\<not> double_underscore b" "filter is_digit s = filter is_digit b"
    by (rule literal_parts)
  show ?thesis
    unfolding int_literal_def Let_def p(1) p(2) p(3)
    using p(4-8) assms(2-4) by (simp add: p(9))
qed

lemma dropWhile_strip:
  "dropWhile is_space s = strip s @ rev (takeWhile is_space (rev (dropWhile is_space s)))"
proof -
  have "strip s @ rev (takeWhile is_space (rev (dropWhile is_space s)))
          = rev (takeWhile is_space (rev (dropWhile is_space s))
                 @ dropWhile is_space (rev (dropWhile is_space s)))"
    by (simp only: rev_append strip_def)
  also have "\<dots> = rev (rev (dropWhile is_space s))"
    by (simp only: takeWhile_dropWhile_id)
  finally show ?thesis by simp
qed

lemma is_int_literal_strip: "is_int_literal s \<Longrightarrow> strip s \<noteq> []"
  by (auto simp: is_int_literal_def unsigned_def)

lemma int_literal_value:
  assumes "is_int_literal s"
      and "\<not> (640 < length (filter is_digit s) \<and> 0 < maxd \<and> maxd < length (filter is_digit s))"
  shows "int_literal maxd s = Inr (literal_value s)"
proof -
  have m: "strip s \<noteq> []"
    using assms(1) by (rule is_int_literal_strip)
  then have "dropWhile is_space s \<noteq> [] \<and> hd (dropWhile is_space s) = hd (strip s)"
    using dropWhile_strip [of s] by (metis append_is_Nil_conv hd_append2)
  with int_literal_accepts [OF assms] show ?thesis
    by (simp add: literal_value_def)
qed

lemma digits_is_int_literal:
  assumes "list_all is_digit s" and "s \<noteq> []"
  shows "is_int_literal s"
proof -
  have "hd s \<in> set s" "last s \<in> set s"
    using assms(2) by simp_all
  with assms(1) have ends: "is_digit (hd s)" "is_digit (last s)"
    by (auto simp: list_all_iff)
  have "strip ([] @ s @ []) = s"
    using assms(2) ends is_digit_not_special by (intro strip_sandwich) auto
  then have strip: "strip s = s" by simp
  have unsigned: "unsigned s = s"
    using assms(2) ends(1) is_digit_not_special by (cases s) (auto simp: unsigned_def)
  show ?thesis
    using assms ends digits_no_double_underscore [OF assms(1)]
    by (auto simp: is_int_literal_def strip unsigned list_all_iff)
qed

lemma int_literal_digits:
  assumes "list_all is_digit s" and "s \<noteq> []"
      and "maxd = 0 \<or> length s \<le> maxd"
  shows "int_literal maxd s = Inr (int (foldl (\<lambda>a c. 10 * a + digit_value c) 0 s))"
proof -
  have f: "filter is_digit s = s"
    using assms(1) by (simp add: list_all_iff)
  have "is_digit (hd s)"
    using assms(1,2) by (cases s) auto
  then have "hd (dropWhile is_space s) \<noteq> CHR ''-''"
    using assms(2) is_digit_not_special dropWhile_unchanged [of s is_space] by auto
  with int_literal_accepts [OF digits_is_int_literal [OF assms(1,2)], of maxd] assms(3)
  show ?thesis
    by (auto simp: f)
qed

lemma int_literal_str_nat:
  "maxd = 0 \<or> length (str_nat n) \<le> maxd \<Longrightarrow> int_literal maxd (str_nat n) = Inr (int n)"
  by (simp add: int_literal_digits str_nat_digits str_nat_not_Nil str_nat_horner)

subsection \<open>The attempt limit of the constructor\<close>

lemma init_default:
  "env ''MAX_CORRECTION_ATTEMPTS'' = None \<or> env ''MAX_CORRECTION_ATTEMPTS'' = Some ''''
   \<Longrightarrow> OmegaAgent_init maxd env script mdl =
         Inr \<lparr>omega_script = script, model = mdl, max_correction_attempts = 3\<rparr>"
  by (auto simp: OmegaAgent_init_def MAX_CORRECTION_ATTEMPTS_def getenv_def py_or_def)

lemma init_string:
  "env ''MAX_CORRECTION_ATTEMPTS'' = Some v \<Longrightarrow> v \<noteq> []
   \<Longrightarrow> OmegaAgent_init maxd env script mdl =
         (case int_literal maxd v of
            Inl e \<Rightarrow> Inl e
          | Inr n \<Rightarrow> Inr \<lparr>omega_script = script, model = mdl, max_correction_attempts = n\<rparr>)"
  by (simp add: OmegaAgent_init_def MAX_CORRECTION_ATTEMPTS_def getenv_def py_or_def)

lemma is_int_literal_not_Nil: "is_int_literal v \<Longrightarrow> v \<noteq> []"
  by (auto simp: is_int_literal_def strip_def unsigned_def)

text \<open>
  With \<open>MAX_CORRECTION_ATTEMPTS=abc\<close> the constructor raises \<open>ValueError\<close>: \<open>abc\<close> is a
  non-empty string, so \<open>or\<close> keeps it, and \<open>int\<close> rejects it. No agent with the attempt
  limit 3 comes out. With a value of 4301 digits \<open>7\<close>, the decimal string of a positive
  integer, an interpreter whose digit limit is 4300 raises \<open>ValueError\<close> as well.
\<close>

theorem init_non_numeric_counterexample:
  "OmegaAgent_init 4300 [''MAX_CORRECTION_ATTEMPTS'' \<mapsto> ''abc''] ''DEFINE_SYMBOLS WR_SECT''
     ''openai-gpt4'' = Inl (ValueError ''abc'')
   \<and> OmegaAgent_init 4300 [''MAX_CORRECTION_ATTEMPTS'' \<mapsto> replicate 4301 (CHR ''7'')]
       ''DEFINE_SYMBOLS WR_SECT'' ''openai-gpt4''
     = Inl (ValueError (replicate 4301 (CHR ''7'')))"
proof -
  have d: "list_all is_digit (replicate 4301 (CHR ''7''))"
    by (simp add: list_all_iff is_digit_def)
  have n: "replicate 4301 (CHR ''7'') \<noteq> []"
    by simp
  have f: "filter is_digit (replicate 4301 (CHR ''7'')) = replicate 4301 (CHR ''7'')"
    using d by (simp add: list_all_iff)
  have "int_literal 4300 (replicate 4301 (CHR ''7'')) = Inl (ValueError (replicate 4301 (CHR ''7'')))"
    by (rule int_literal_over_limit [OF digits_is_int_literal [OF d n]]) (simp_all add: f)
  moreover have "int_literal 4300 ''abc'' = Inl (ValueError ''abc'')"
    by (simp add: int_literal_def is_space_def is_digit_def)
  ultimately show ?thesis
    using n by (simp add: init_string)
qed

text \<open>
  C5, as the code has it. When \<open>MAX_CORRECTION_ATTEMPTS\<close> is unset or empty, the agent's
  \<open>max_correction_attempts\<close> is 3. When it is non-numeric, that is a non-empty string
  that is not a decimal integer literal, the constructor raises \<open>ValueError\<close> and there is
  no agent. When it is the decimal string of a positive integer \<open>n\<close>, within the
  interpreter's digit limit if it has one, \<open>max_correction_attempts\<close> is \<open>n\<close>. A literal of
  more digits than that limit raises \<open>ValueError\<close>, and every literal within it gives
  the integer it denotes.
\<close>

theorem init_max_correction_attempts:
  "(env ''MAX_CORRECTION_ATTEMPTS'' = None \<or> env ''MAX_CORRECTION_ATTEMPTS'' = Some ''''
      \<longrightarrow> OmegaAgent_init maxd env script mdl =
            Inr \<lparr>omega_script = script, model = mdl, max_correction_attempts = 3\<rparr>)
   \<and> (env ''MAX_CORRECTION_ATTEMPTS'' = Some v \<and> v \<noteq> [] \<and> \<not> is_int_literal v
      \<longrightarrow> OmegaAgent_init maxd env script mdl = Inl (ValueError v))
   \<and> (0 < n \<and> env ''MAX_CORRECTION_ATTEMPTS'' = Some (str_nat n)
        \<and> (maxd = 0 \<or> length (str_nat n) \<le> maxd)
      \<longrightarrow> OmegaAgent_init maxd env script mdl =
            Inr \<lparr>omega_script = script, model = mdl, max_correction_attempts = int n\<rparr>)
   \<and> (env ''MAX_CORRECTION_ATTEMPTS'' = Some l \<and> is_int_literal l
        \<and> 640 < length (filter is_digit l) \<and> 0 < maxd \<and> maxd < length (filter is_digit l)
      \<longrightarrow> OmegaAgent_init maxd env script mdl = Inl (ValueError l))
   \<and> (env ''MAX_CORRECTION_ATTEMPTS'' = Some k \<and> is_int_literal k
        \<and> \<not> (640 < length (filter is_digit k) \<and> 0 < maxd \<and> maxd < length (filter is_digit k))
      \<longrightarrow> OmegaAgent_init maxd env script mdl =
            Inr \<lparr>omega_script = script, model = mdl,
                 max_correction_attempts = literal_value k\<rparr>)"
proof -
  have "OmegaAgent_init maxd env script mdl =
          Inr \<lparr>omega_script = script, model = mdl, max_correction_attempts = literal_value k\<rparr>"
    if "env ''MAX_CORRECTION_ATTEMPTS'' = Some k" and "is_int_literal k"
      and "\<not> (640 < length (filter is_digit k) \<and> 0 < maxd \<and> maxd < length (filter is_digit k))"
    using that int_literal_value [of k maxd]
    by (simp add: init_string is_int_literal_not_Nil)
  then show ?thesis
    by (auto simp: init_default init_string str_nat_not_Nil int_literal_str_nat
        int_literal_non_numeric int_literal_over_limit is_int_literal_not_Nil)
qed

text \<open>
  The variable unset and empty; the non-numeric values \<open>three\<close>, \<open>12abc\<close>, \<open>1.5\<close> and
  \<open>3 attempts\<close>; the value \<open>12\<close>; a literal with whitespace, a sign and an underscore;
  and 4301 digits under the limit 4300.
\<close>

theorem init_max_correction_attempts_witness:
  "OmegaAgent_init 4300 Map.empty ''DEFINE_SYMBOLS WR_SECT'' ''openai-gpt4''
     = Inr \<lparr>omega_script = ''DEFINE_SYMBOLS WR_SECT'', model = ''openai-gpt4'',
            max_correction_attempts = 3\<rparr>
   \<and> OmegaAgent_init 4300 [''MAX_CORRECTION_ATTEMPTS'' \<mapsto> ''''] ''DEFINE_SYMBOLS WR_SECT''
       ''openai-gpt4''
     = Inr \<lparr>omega_script = ''DEFINE_SYMBOLS WR_SECT'', model = ''openai-gpt4'',
            max_correction_attempts = 3\<rparr>
   \<and> \<not> is_int_literal ''three''
   \<and> OmegaAgent_init 4300 [''MAX_CORRECTION_ATTEMPTS'' \<mapsto> ''three'']
       ''DEFINE_SYMBOLS WR_SECT'' ''openai-gpt4''
     = Inl (ValueError ''three'')
   \<and> \<not> is_int_literal ''12abc''
   \<and> OmegaAgent_init 4300 [''MAX_CORRECTION_ATTEMPTS'' \<mapsto> ''12abc'']
       ''DEFINE_SYMBOLS WR_SECT'' ''openai-gpt4''
     = Inl (ValueError ''12abc'')
   \<and> \<not> is_int_literal ''1.5''
   \<and> OmegaAgent_init 4300 [''MAX_CORRECTION_ATTEMPTS'' \<mapsto> ''1.5'']
       ''DEFINE_SYMBOLS WR_SECT'' ''openai-gpt4''
     = Inl (ValueError ''1.5'')
   \<and> \<not> is_int_literal ''3 attempts''
   \<and> OmegaAgent_init 4300 [''MAX_CORRECTION_ATTEMPTS'' \<mapsto> ''3 attempts'']
       ''DEFINE_SYMBOLS WR_SECT'' ''openai-gpt4''
     = Inl (ValueError ''3 attempts'')
   \<and> str_nat 12 = ''12''
   \<and> OmegaAgent_init 4300 [''MAX_CORRECTION_ATTEMPTS'' \<mapsto> ''12''] ''DEFINE_SYMBOLS WR_SECT''
       ''openai-gpt4''
     = Inr \<lparr>omega_script = ''DEFINE_SYMBOLS WR_SECT'', model = ''openai-gpt4'',
            max_correction_attempts = 12\<rparr>
   \<and> is_int_literal '' +1_000 ''
   \<and> OmegaAgent_init 4300 [''MAX_CORRECTION_ATTEMPTS'' \<mapsto> '' +1_000 '']
       ''DEFINE_SYMBOLS WR_SECT'' ''openai-gpt4''
     = Inr \<lparr>omega_script = ''DEFINE_SYMBOLS WR_SECT'', model = ''openai-gpt4'',
            max_correction_attempts = 1000\<rparr>
   \<and> is_int_literal (replicate 4301 (CHR ''7''))
   \<and> length (filter is_digit (replicate 4301 (CHR ''7''))) = 4301
   \<and> OmegaAgent_init 4300 [''MAX_CORRECTION_ATTEMPTS'' \<mapsto> replicate 4301 (CHR ''7'')]
       ''DEFINE_SYMBOLS WR_SECT'' ''openai-gpt4''
     = Inl (ValueError (replicate 4301 (CHR ''7'')))"
proof -
  have s12: "str_nat 12 = ''12''"
    by code_simp
  have nl: "\<not> is_int_literal ''three''" "\<not> is_int_literal ''12abc''"
    "\<not> is_int_literal ''1.5''" "\<not> is_int_literal ''3 attempts''"
    by (simp_all add: is_int_literal_def strip_def unsigned_def is_space_def is_digit_def)
  have lit: "is_int_literal '' +1_000 ''" "literal_value '' +1_000 '' = 1000"
    "length (filter is_digit '' +1_000 '') = 4"
    by (simp_all add: is_int_literal_def literal_value_def strip_def unsigned_def is_space_def
        is_digit_def digit_value_def)
  have d: "list_all is_digit (replicate 4301 (CHR ''7''))"
    by (simp add: list_all_iff is_digit_def)
  then have f: "length (filter is_digit (replicate 4301 (CHR ''7''))) = 4301"
    by (simp add: list_all_iff)
  have big: "is_int_literal (replicate 4301 (CHR ''7''))"
    using d by (intro digits_is_int_literal) simp_all
  show ?thesis
    using s12 nl f big lit
      init_max_correction_attempts
        [where env = "[''MAX_CORRECTION_ATTEMPTS'' \<mapsto> '' +1_000 '']" and maxd = 4300
           and k = "'' +1_000 ''"
           and script = "''DEFINE_SYMBOLS WR_SECT''" and mdl = "''openai-gpt4''"]
      init_max_correction_attempts
        [where env = Map.empty and maxd = 4300 and script = "''DEFINE_SYMBOLS WR_SECT''"
           and mdl = "''openai-gpt4''"]
      init_max_correction_attempts
        [where env = "[''MAX_CORRECTION_ATTEMPTS'' \<mapsto> '''']" and maxd = 4300
           and script = "''DEFINE_SYMBOLS WR_SECT''" and mdl = "''openai-gpt4''"]
      init_max_correction_attempts
        [where env = "[''MAX_CORRECTION_ATTEMPTS'' \<mapsto> ''three'']" and maxd = 4300
           and v = "''three''"
           and script = "''DEFINE_SYMBOLS WR_SECT''" and mdl = "''openai-gpt4''"]
      init_max_correction_attempts
        [where env = "[''MAX_CORRECTION_ATTEMPTS'' \<mapsto> ''12abc'']" and maxd = 4300
           and v = "''12abc''"
           and script = "''DEFINE_SYMBOLS WR_SECT''" and mdl = "''openai-gpt4''"]
      init_max_correction_attempts
        [where env = "[''MAX_CORRECTION_ATTEMPTS'' \<mapsto> ''1.5'']" and maxd = 4300
           and v = "''1.5''"
           and script = "''DEFINE_SYMBOLS WR_SECT''" and mdl = "''openai-gpt4''"]
      init_max_correction_attempts
        [where env = "[''MAX_CORRECTION_ATTEMPTS'' \<mapsto> ''3 attempts'']" and maxd = 4300
           and v = "''3 attempts''"
           and script = "''DEFINE_SYMBOLS WR_SECT''" and mdl = "''openai-gpt4''"]
      init_max_correction_attempts
        [where env = "[''MAX_CORRECTION_ATTEMPTS'' \<mapsto> ''12'']" and maxd = 4300 and n = 12
           and script = "''DEFINE_SYMBOLS WR_SECT''" and mdl = "''openai-gpt4''"]
      init_max_correction_attempts
        [where env = "[''MAX_CORRECTION_ATTEMPTS'' \<mapsto> replicate 4301 (CHR ''7'')]"
           and maxd = 4300 and l = "replicate 4301 (CHR ''7'')"
           and script = "''DEFINE_SYMBOLS WR_SECT''" and mdl = "''openai-gpt4''"]
    by simp
qed

subsection \<open>Logging\<close>

text \<open>
  A call that the database client completes prints nothing. An exception that is not an
  instance of \<open>Exception\<close> is outside the \<open>except\<close> clause and leaves the function.
\<close>

lemma log_interaction_success:
  "supabase (inserts w) ''query_logs''
     [(''prompt'', prompt), (''response'', response), (''model'', mdl)] = None
   \<Longrightarrow> log_interaction supabase py_print prompt response mdl w =
         (Inr (),
          w\<lparr>inserts := inserts w @
               [(''query_logs'',
                 [(''prompt'', prompt), (''response'', response), (''model'', mdl)])]\<rparr>)"
  by (simp add: log_interaction_def)

lemma log_interaction_non_exception:
  "supabase (inserts w) ''query_logs''
     [(''prompt'', prompt), (''response'', response), (''model'', mdl)] = Some e
   \<Longrightarrow> \<not> is_Exception e
   \<Longrightarrow> fst (log_interaction supabase py_print prompt response mdl w) = Inl e"
  by (simp add: log_interaction_def)

text \<open>
  When the database client fails and the \<open>print\<close> of the warning fails too, here with a
  broken pipe on standard output, \<open>log_interaction\<close> raises the exception of \<open>print\<close>.
\<close>

theorem log_interaction_print_failure_counterexample:
  "is_Exception (OtherException ''APIError'' ''connection refused'')
   \<and> fst (log_interaction (\<lambda>h t d. Some (OtherException ''APIError'' ''connection refused''))
        (\<lambda>p line. Some (OtherException ''BrokenPipeError'' ''Broken pipe''))
        ''DEFINE_SYMBOLS WR_SECT'' ''plain text'' ''openai-gpt4'' no_calls)
     = Inl (OtherException ''BrokenPipeError'' ''Broken pipe'')"
  by (simp add: log_interaction_def no_calls_def)

text \<open>
  C8, as the code has it. For every prompt, response and model, when the database client
  fails with an exception \<open>e\<close> (an instance of \<open>Exception\<close>, as every error class is),
  \<open>log_interaction\<close> catches \<open>e\<close> and calls \<open>print\<close> once, with the warning and \<open>e\<close>. When
  that call succeeds, \<open>log_interaction\<close> returns \<open>None\<close>: it does not raise, and what it
  has done is to submit the row and to print the warning. When that call raises,
  its exception leaves \<open>log_interaction\<close>. In both cases the requests of the workflow are
  as they were.
\<close>

theorem log_interaction_catches_failure:
  assumes "supabase (inserts w) ''query_logs''
             [(''prompt'', prompt), (''response'', response), (''model'', mdl)] = Some e"
      and "is_Exception e"
  shows "log_interaction supabase py_print prompt response mdl w =
           (case py_print (printed w)
                   [PrintStr ''Warning: Logging to Supabase failed:'', PrintExc e] of
              None \<Rightarrow>
                (Inr (),
                 w\<lparr>inserts := inserts w @
                      [(''query_logs'',
                        [(''prompt'', prompt), (''response'', response), (''model'', mdl)])],
                   printed := printed w @
                      [[PrintStr ''Warning: Logging to Supabase failed:'', PrintExc e]]\<rparr>)
            | Some pe \<Rightarrow>
                (Inl pe,
                 w\<lparr>inserts := inserts w @
                      [(''query_logs'',
                        [(''prompt'', prompt), (''response'', response), (''model'', mdl)])]\<rparr>))
         \<and> requests (snd (log_interaction supabase py_print prompt response mdl w)) = requests w"
  using assms by (simp add: log_interaction_def Let_def split: option.splits)

text \<open>
  A client that fails with an API error, after a run that sent one request: once with a
  working \<open>print\<close>, once with a broken pipe.
\<close>

theorem log_interaction_catches_failure_witness:
  "is_Exception (OtherException ''APIError'' ''connection refused'')
   \<and> log_interaction (\<lambda>h t d. Some (OtherException ''APIError'' ''connection refused''))
        (\<lambda>p line. None)
        ''DEFINE_SYMBOLS WR_SECT'' ''plain text'' ''openai-gpt4''
        \<lparr>requests = [correction_request ''DEFINE_SYMBOLS WR_SECT''], inserts = [],
         printed = []\<rparr>
     = (Inr (),
        \<lparr>requests = [correction_request ''DEFINE_SYMBOLS WR_SECT''],
         inserts = [(''query_logs'',
           [(''prompt'', ''DEFINE_SYMBOLS WR_SECT''), (''response'', ''plain text''),
            (''model'', ''openai-gpt4'')])],
         printed = [[PrintStr ''Warning: Logging to Supabase failed:'',
                     PrintExc (OtherException ''APIError'' ''connection refused'')]]\<rparr>)
   \<and> log_interaction (\<lambda>h t d. Some (OtherException ''APIError'' ''connection refused''))
        (\<lambda>p line. Some (OtherException ''BrokenPipeError'' ''Broken pipe''))
        ''DEFINE_SYMBOLS WR_SECT'' ''plain text'' ''openai-gpt4''
        \<lparr>requests = [correction_request ''DEFINE_SYMBOLS WR_SECT''], inserts = [],
         printed = []\<rparr>
     = (Inl (OtherException ''BrokenPipeError'' ''Broken pipe''),
        \<lparr>requests = [correction_request ''DEFINE_SYMBOLS WR_SECT''],
         inserts = [(''query_logs'',
           [(''prompt'', ''DEFINE_SYMBOLS WR_SECT''), (''response'', ''plain text''),
            (''model'', ''openai-gpt4'')])],
         printed = []\<rparr>)"
  using log_interaction_catches_failure
    [where supabase = "\<lambda>h t d. Some (OtherException ''APIError'' ''connection refused'')"
       and py_print = "\<lambda>p line. None"
       and w = "\<lparr>requests = [correction_request ''DEFINE_SYMBOLS WR_SECT''], inserts = [],
                 printed = []\<rparr>"
       and prompt = "''DEFINE_SYMBOLS WR_SECT''" and response = "''plain text''"
       and mdl = "''openai-gpt4''"
       and e = "OtherException ''APIError'' ''connection refused''"]
    log_interaction_catches_failure
    [where supabase = "\<lambda>h t d. Some (OtherException ''APIError'' ''connection refused'')"
       and py_print = "\<lambda>p line. Some (OtherException ''BrokenPipeError'' ''Broken pipe'')"
       and w = "\<lparr>requests = [correction_request ''DEFINE_SYMBOLS WR_SECT''], inserts = [],
                 printed = []\<rparr>"
       and prompt = "''DEFINE_SYMBOLS WR_SECT''" and response = "''plain text''"
       and mdl = "''openai-gpt4''"
       and e = "OtherException ''APIError'' ''connection refused''"]
  by simp

end
